theory Spec2Isabelle
  imports Main
begin

section \<open>Data model\<close>

text \<open>
  The class \<open>USB\<close> of \<open>src/usb.ts\<close> keeps a list of allowed devices, matches request
  filters against device descriptors, and relays the adapter's hot-plug events while a
  listener is registered.

  Modelled from the spec: the device record (\<open>./device\<close>) and the filter record
  (\<open>./interfaces\<close>) are declared outside \<open>usb.ts\<close>; the records below carry exactly the
  fields that \<open>usb.ts\<close> reads, and every device has a configuration with its sequence
  of interfaces. Numbers are integers. The filter's \<open>vendorId\<close> and
  \<open>productId\<close> are named \<open>filterVendorId\<close> and \<open>filterProductId\<close>, and the device's
  \<open>_handle\<close> is named \<open>handle\<close>; every other field keeps its name.
\<close>

record USBAlternateInterface =
  interfaceClass :: int
  interfaceSubclass :: int
  interfaceProtocol :: int

record USBInterface =
  alternate :: USBAlternateInterface

record USBConfiguration =
  interfaces :: "USBInterface list"

record USBDevice =
  vendorId :: int
  productId :: int
  serialNumber :: string
  connected :: bool
  deviceClass :: int
  deviceSubclass :: int
  deviceProtocol :: int
  configuration :: USBConfiguration
  handle :: nat

text \<open>Every criterion of a filter is optional: \<open>None\<close> is a field that is not there.\<close>

record USBDeviceFilter =
  filterVendorId :: "int option"
  filterProductId :: "int option"
  classCode :: "int option"
  subclassCode :: "int option"
  protocolCode :: "int option"
  serialnumber :: "string option"

text \<open>
  What a rejected promise or a \<open>throw\<close> carries: the two error classes the source
  constructs, and any other value (of the adapter or of the selection callback), kept as
  the text its string conversion gives. The string conversion of an error is its name,
  followed by a colon, a space and the message when the message is not empty.
\<close>

datatype error = TypeError string | Error string | Other string

fun toString :: "error \<Rightarrow> string" where
  "toString (TypeError m) = (if m = [] then ''TypeError'' else ''TypeError: '' @ m)"
| "toString (Error m) = (if m = [] then ''Error'' else ''Error: '' @ m)"
| "toString (Other m) = m"

text \<open>
  Reading a property of \<open>undefined\<close> throws a \<open>TypeError\<close>; the wording of its message
  is the engine's.
\<close>

definition undefinedProperty :: error where
  "undefinedProperty = TypeError ''Cannot read properties of undefined''"

text \<open>
  The conditions \<open>filter.x && ...\<close> test the truthiness of a field: a missing field, the
  number 0 and the empty string are all falsy.
\<close>

definition truthy :: "int option \<Rightarrow> bool" where
  "truthy v = (case v of None \<Rightarrow> False | Some n \<Rightarrow> n \<noteq> 0)"

definition truthyString :: "string option \<Rightarrow> bool" where
  "truthyString v = (case v of None \<Rightarrow> False | Some t \<Rightarrow> t \<noteq> [])"

section \<open>Filter matching\<close>

text \<open>The callback of the inner \<open>interfaces.some\<close> of \<open>filterDevice\<close>.\<close>

definition matchInterface :: "USBDeviceFilter \<Rightarrow> USBInterface \<Rightarrow> bool" where
  "matchInterface flt iface =
     (if truthy (classCode flt) \<and> classCode flt \<noteq> Some (interfaceClass (alternate iface))
        then False
      else if truthy (subclassCode flt)
              \<and> subclassCode flt \<noteq> Some (interfaceSubclass (alternate iface))
        then False
      else if truthy (protocolCode flt)
              \<and> protocolCode flt \<noteq> Some (interfaceProtocol (alternate iface))
        then False
      else True)"

text \<open>The callback of the outer \<open>filters.some\<close> of \<open>filterDevice\<close>, one filter on one device.\<close>

definition matchFilter :: "USBDeviceFilter \<Rightarrow> USBDevice \<Rightarrow> bool" where
  "matchFilter flt device =
     (if truthy (filterVendorId flt) \<and> filterVendorId flt \<noteq> Some (vendorId device)
        then False
      else if truthy (filterProductId flt)
              \<and> filterProductId flt \<noteq> Some (productId device)
        then False
      else if truthy (classCode flt)
              \<and> list_ex (matchInterface flt) (interfaces (configuration device))
        then True
      else if truthy (classCode flt) \<and> classCode flt \<noteq> Some (deviceClass device)
        then False
      else if truthy (subclassCode flt)
              \<and> subclassCode flt \<noteq> Some (deviceSubclass device)
        then False
      else if truthy (protocolCode flt)
              \<and> protocolCode flt \<noteq> Some (deviceProtocol device)
        then False
      else if truthyString (serialnumber flt)
              \<and> serialnumber flt \<noteq> Some (serialNumber device)
        then False
      else True)"

definition filterDevice :: "USBDeviceFilter list \<Rightarrow> USBDevice \<Rightarrow> bool" where
  "filterDevice filters device = list_ex (\<lambda>flt. matchFilter flt device) filters"

section \<open>The allowed-device list\<close>

text \<open>
  The selection callback may hand \<open>undefined\<close> to \<open>selectFn\<close>, which can store it, so an
  entry of the list is a device record or \<open>undefined\<close> (\<open>None\<close>).

  \<open>isSameDevice\<close> reads \<open>device1.productId\<close> and \<open>device2.productId\<close> first: it throws when
  either argument is \<open>undefined\<close>.
\<close>

definition isSameDevice :: "USBDevice option \<Rightarrow> USBDevice option \<Rightarrow> error + bool" where
  "isSameDevice device1 device2 =
     (case device1 of
        None \<Rightarrow> Inl undefinedProperty
      | Some d1 \<Rightarrow>
          (case device2 of
             None \<Rightarrow> Inl undefinedProperty
           | Some d2 \<Rightarrow>
               Inr (productId d1 = productId d2
                    \<and> vendorId d1 = vendorId d2
                    \<and> serialNumber d1 = serialNumber d2)))"

text \<open>
  The loop of \<open>replaceAllowedDevice\<close> over the indices of the list: the first entry that
  is the same device is overwritten and the loop returns true; the result is the flag and
  the list after the call. A throw happens before any write.
\<close>

fun replaceAllowedDevice ::
  "USBDevice option \<Rightarrow> USBDevice option list \<Rightarrow> error + (bool \<times> USBDevice option list)" where
  "replaceAllowedDevice device [] = Inr (False, [])"
| "replaceAllowedDevice device (a # rest) =
     (case isSameDevice device a of
        Inl e \<Rightarrow> Inl e
      | Inr True \<Rightarrow> Inr (True, device # rest)
      | Inr False \<Rightarrow>
          (case replaceAllowedDevice device rest of
             Inl e \<Rightarrow> Inl e
           | Inr (found, rest') \<Rightarrow> Inr (found, a # rest')))"

section \<open>The state of a USB instance and of its adapter\<close>

text \<open>
  Modelled from the spec: the event dispatcher (\<open>./dispatcher\<close>) and the adapter
  (\<open>./adapter\<close>) are not part of \<open>usb.ts\<close>. Both are Node.js event emitters: \<open>newListener\<close>
  is emitted before a listener is added to the listeners of its event, \<open>removeListener\<close>
  after a listener has been removed, removing takes out the most recently added instance
  of the listener and emits nothing when there is none, and an emitter calls every
  listener registered for the emitted event, in order of registration.
\<close>

datatype event = NewListener | RemoveListener | Connect | Disconnect

datatype adapterEvent = EVENT_DEVICE_CONNECT | EVENT_DEVICE_DISCONNECT

text \<open>
  A listener on the instance is one of the two handlers its constructor installs, or a
  listener of the application, which the instance knows by reference only.
\<close>

datatype listener = NewListenerHandler | RemoveListenerHandler | User nat

text \<open>
  \<open>adapterListeners\<close> holds one entry for every registration of this instance's
  \<open>deviceConnectCallback\<close> (under \<open>EVENT_DEVICE_CONNECT\<close>) or \<open>deviceDisconnectCallback\<close>
  (under \<open>EVENT_DEVICE_DISCONNECT\<close>) on the adapter; \<open>listCalls\<close> counts the calls of
  \<open>adapter.listUSBDevices\<close>; \<open>emitted\<close> is the sequence of \<open>connect\<close> and \<open>disconnect\<close>
  events the instance has emitted to its listeners.
\<close>

record USB =
  allowedDevices :: "USBDevice option list"
  listeners :: "(event \<times> listener) list"
  adapterListeners :: "adapterEvent list"
  listCalls :: nat
  emitted :: "(event \<times> USBDevice) list"

definition listenerCount :: "event \<Rightarrow> USB \<Rightarrow> nat" where
  "listenerCount ev s = length (filter (\<lambda>(e, l). e = ev) (listeners s))"

definition subscriptions :: "adapterEvent \<Rightarrow> USB \<Rightarrow> nat" where
  "subscriptions ev s = length (filter (\<lambda>e. e = ev) (adapterListeners s))"

definition removeLast :: "'a \<Rightarrow> 'a list \<Rightarrow> 'a list" where
  "removeLast x xs = rev (remove1 x (rev xs))"

definition adapterAddListener :: "adapterEvent \<Rightarrow> USB \<Rightarrow> USB" where
  "adapterAddListener ev s = s\<lparr>adapterListeners := adapterListeners s @ [ev]\<rparr>"

definition adapterRemoveListener :: "adapterEvent \<Rightarrow> USB \<Rightarrow> USB" where
  "adapterRemoveListener ev s = s\<lparr>adapterListeners := removeLast ev (adapterListeners s)\<rparr>"

section \<open>The constructor's handlers\<close>

definition newListenerHandler :: "event \<Rightarrow> USB \<Rightarrow> USB" where
  "newListenerHandler ev s =
     (if listenerCount ev s \<noteq> 0 then s
      else if ev = Connect then adapterAddListener EVENT_DEVICE_CONNECT s
      else if ev = Disconnect then adapterAddListener EVENT_DEVICE_DISCONNECT s
      else s)"

definition removeListenerHandler :: "event \<Rightarrow> USB \<Rightarrow> USB" where
  "removeListenerHandler ev s =
     (if listenerCount ev s \<noteq> 0 then s
      else if ev = Connect then adapterRemoveListener EVENT_DEVICE_CONNECT s
      else if ev = Disconnect then adapterRemoveListener EVENT_DEVICE_DISCONNECT s
      else s)"

text \<open>
  Calling one listener of \<open>newListener\<close> or \<open>removeListener\<close> with the event name as its
  argument. A listener of the application does not touch the state of the instance.
\<close>

fun callListener :: "event \<Rightarrow> listener \<Rightarrow> USB \<Rightarrow> USB" where
  "callListener ev NewListenerHandler s = newListenerHandler ev s"
| "callListener ev RemoveListenerHandler s = removeListenerHandler ev s"
| "callListener ev (User n) s = s"

definition listenersOf :: "event \<Rightarrow> USB \<Rightarrow> listener list" where
  "listenersOf ev s = map snd (filter (\<lambda>(e, l). e = ev) (listeners s))"

definition emitListenerEvent :: "event \<Rightarrow> event \<Rightarrow> USB \<Rightarrow> USB" where
  "emitListenerEvent hook ev s = fold (callListener ev) (listenersOf hook s) s"

definition on :: "event \<Rightarrow> listener \<Rightarrow> USB \<Rightarrow> USB" where
  "on ev l s =
     (let s1 = emitListenerEvent NewListener ev s
      in s1\<lparr>listeners := listeners s1 @ [(ev, l)]\<rparr>)"

definition removeListener :: "event \<Rightarrow> listener \<Rightarrow> USB \<Rightarrow> USB" where
  "removeListener ev l s =
     (if (ev, l) \<in> set (listeners s)
      then emitListenerEvent RemoveListener ev
             (s\<lparr>listeners := removeLast (ev, l) (listeners s)\<rparr>)
      else s)"

text \<open>
  The constructor: an empty list of allowed devices, then the two handlers are
  registered with \<open>this.on\<close>.
\<close>

definition emptyUSB :: USB where
  "emptyUSB = \<lparr>allowedDevices = [], listeners = [], adapterListeners = [],
               listCalls = 0, emitted = []\<rparr>"

definition constructor :: USB where
  "constructor = on RemoveListener RemoveListenerHandler (on NewListener NewListenerHandler emptyUSB)"

text \<open>
  \<open>deviceConnectCallback\<close> and \<open>deviceDisconnectCallback\<close>: the error, if the callback
  throws, and the state after it.
\<close>

definition deviceConnectCallback :: "USBDevice \<Rightarrow> USB \<Rightarrow> error option \<times> USB" where
  "deviceConnectCallback device s =
     (case replaceAllowedDevice (Some device) (allowedDevices s) of
        Inl e \<Rightarrow> (Some e, s)
      | Inr (True, al) \<Rightarrow>
          (None, s\<lparr>allowedDevices := al, emitted := emitted s @ [(Connect, device)]\<rparr>)
      | Inr (False, al) \<Rightarrow> (None, s))"

text \<open>The \<open>find\<close> over the allowed devices by handle: it throws at an \<open>undefined\<close> entry.\<close>

fun findByHandle :: "nat \<Rightarrow> USBDevice option list \<Rightarrow> error + USBDevice option" where
  "findByHandle h [] = Inr None"
| "findByHandle h (None # rest) = Inl undefinedProperty"
| "findByHandle h (Some a # rest) = (if handle a = h then Inr (Some a) else findByHandle h rest)"

definition deviceDisconnectCallback :: "nat \<Rightarrow> USB \<Rightarrow> error option \<times> USB" where
  "deviceDisconnectCallback h s =
     (case findByHandle h (allowedDevices s) of
        Inl e \<Rightarrow> (Some e, s)
      | Inr None \<Rightarrow> (None, s)
      | Inr (Some allowedDevice) \<Rightarrow>
          (None, s\<lparr>emitted := emitted s @ [(Disconnect, allowedDevice)]\<rparr>))"

section \<open>getDevices\<close>

text \<open>The loop inside the callback of \<open>devices.filter\<close>.\<close>

fun isAllowed :: "USBDevice \<Rightarrow> USBDevice option list \<Rightarrow> error + bool" where
  "isAllowed device [] = Inr False"
| "isAllowed device (a # rest) =
     (case isSameDevice (Some device) a of
        Inl e \<Rightarrow> Inl e
      | Inr True \<Rightarrow> Inr True
      | Inr False \<Rightarrow> isAllowed device rest)"

fun filterAllowed :: "USBDevice list \<Rightarrow> USBDevice option list \<Rightarrow> error + USBDevice list" where
  "filterAllowed [] al = Inr []"
| "filterAllowed (device # rest) al =
     (if \<not> connected device then filterAllowed rest al
      else (case isAllowed device al of
              Inl e \<Rightarrow> Inl e
            | Inr keep \<Rightarrow>
                (case filterAllowed rest al of
                   Inl e \<Rightarrow> Inl e
                 | Inr allowed \<Rightarrow> Inr (if keep then device # allowed else allowed))))"

text \<open>
  \<open>listUSBDevices\<close> is what the adapter's enumeration settles with: a failure or the
  devices. The result is what the returned promise settles with, and the state after.
\<close>

definition getDevices :: "error + USBDevice list \<Rightarrow> USB \<Rightarrow> (error + USBDevice list) \<times> USB" where
  "getDevices listUSBDevices s =
     (let s1 = s\<lparr>listCalls := Suc (listCalls s)\<rparr>
      in (case listUSBDevices of
            Inl e \<Rightarrow> (Inl e, s1)
          | Inr devices \<Rightarrow> (filterAllowed devices (allowedDevices s1), s1)))"

section \<open>requestDevice\<close>

text \<open>
  The shapes of the argument that the first four checks tell apart: no or a falsy
  argument, a value that is not a plain object, and an object whose member \<open>filters\<close> is
  falsy, not an array, or an array of filters. An empty array is truthy.
\<close>

datatype filtersValue = FiltersFalsy | FiltersNotArray | FiltersArray "USBDeviceFilter list"

datatype optionsValue = OptionsFalsy | OptionsNotObject | OptionsObject filtersValue

text \<open>
  The promise that \<open>requestDevice\<close> returns: pending (\<open>None\<close>), or settled with an error or
  with a value. Only the first \<open>resolve\<close> or \<open>reject\<close> settles it.
\<close>

type_synonym promise = "(error + USBDevice option) option"

definition reject :: "error \<Rightarrow> promise \<Rightarrow> promise" where
  "reject e p = (case p of None \<Rightarrow> Some (Inl e) | Some r \<Rightarrow> Some r)"

definition resolve :: "USBDevice option \<Rightarrow> promise \<Rightarrow> promise" where
  "resolve v p = (case p of None \<Rightarrow> Some (Inr v) | Some r \<Rightarrow> Some r)"

text \<open>The callback of \<open>filters.every\<close>: the error it rejects with, if any.\<close>

definition checkFilter :: "USBDeviceFilter \<Rightarrow> error option" where
  "checkFilter flt =
     (if truthy (protocolCode flt) \<and> \<not> truthy (subclassCode flt)
        then Some (TypeError ''requestDevice error: subclass code is required'')
      else if truthy (subclassCode flt) \<and> \<not> truthy (classCode flt)
        then Some (TypeError ''requestDevice error: class code is required'')
      else None)"

text \<open>\<open>every\<close> stops at the first filter whose callback returns false.\<close>

fun checkFilters :: "USBDeviceFilter list \<Rightarrow> error option" where
  "checkFilters [] = None"
| "checkFilters (flt # rest) =
     (case checkFilter flt of Some e \<Rightarrow> Some e | None \<Rightarrow> checkFilters rest)"

text \<open>
  \<open>selectFn\<close>: replace or append, then resolve. The first component is the error when the
  call throws.
\<close>

definition selectFn :: "USBDevice option \<Rightarrow> promise \<Rightarrow> USB \<Rightarrow> error option \<times> promise \<times> USB" where
  "selectFn device p s =
     (case replaceAllowedDevice device (allowedDevices s) of
        Inl e \<Rightarrow> (Some e, p, s)
      | Inr (True, al) \<Rightarrow> (None, resolve device p, s\<lparr>allowedDevices := al\<rparr>)
      | Inr (False, al) \<Rightarrow>
          (None, resolve device p, s\<lparr>allowedDevices := allowedDevices s @ [device]\<rparr>))"

text \<open>
  The selection callback given to the constructor, if any: from the matched devices to
  what its promise settles with, a rejection or a device or nothing.
\<close>

type_synonym devicesFound = "USBDevice list \<Rightarrow> error + USBDevice option"

text \<open>
  The callback of \<open>then\<close> on the enumeration, with the callback of \<open>then\<close> on the
  selection inside it. After \<open>reject\<close> for a selection of nothing the source goes on to
  call \<open>selectFn\<close>.
\<close>

definition onDevices ::
  "devicesFound option \<Rightarrow> USBDeviceFilter list \<Rightarrow> USBDevice list \<Rightarrow> promise \<Rightarrow> USB
     \<Rightarrow> error option \<times> promise \<times> USB" where
  "onDevices found filters listed p s =
     (case filter (filterDevice filters) listed of
        [] \<Rightarrow> (None, reject (Error ''requestDevice error: no devices found'') p, s)
      | first # others \<Rightarrow>
          (case found of
             None \<Rightarrow> selectFn (Some first) p s
           | Some devicesFound \<Rightarrow>
               (case devicesFound (first # others) of
                  Inl e \<Rightarrow> (Some e, p, s)
                | Inr device \<Rightarrow>
                    selectFn device
                      (if device = None then reject (Error ''selected device not found'') p
                       else p)
                      s)))"

text \<open>The handler of \<open>catch\<close> at the end of the chain.\<close>

definition catchError :: "error option \<times> promise \<times> USB \<Rightarrow> promise \<times> USB" where
  "catchError r =
     (case r of
        (None, p, s) \<Rightarrow> (p, s)
      | (Some e, p, s) \<Rightarrow> (reject (Error (''requestDevice error: '' @ toString e)) p, s))"

definition requestDevice ::
  "devicesFound option \<Rightarrow> optionsValue \<Rightarrow> error + USBDevice list \<Rightarrow> USB \<Rightarrow> promise \<times> USB" where
  "requestDevice found options listUSBDevices s =
     (case options of
        OptionsFalsy \<Rightarrow>
          (reject (TypeError ''requestDevice error: 1 argument required, but only 0 present'')
             None, s)
      | OptionsNotObject \<Rightarrow>
          (reject (TypeError ''requestDevice error: parameter 1 (options) is not an object'')
             None, s)
      | OptionsObject FiltersFalsy \<Rightarrow>
          (reject (TypeError ''requestDevice error: required member filters is undefined'')
             None, s)
      | OptionsObject FiltersNotArray \<Rightarrow>
          (reject (TypeError
             ''requestDevice error: the provided value cannot be converted to a sequence'')
             None, s)
      | OptionsObject (FiltersArray filters) \<Rightarrow>
          (case checkFilters filters of
             Some e \<Rightarrow> (reject e None, s)
           | None \<Rightarrow>
               (let s1 = s\<lparr>listCalls := Suc (listCalls s)\<rparr>
                in (case listUSBDevices of
                      Inl e \<Rightarrow> catchError (Some e, None, s1)
                    | Inr devices \<Rightarrow> catchError (onDevices found filters devices None s1)))))"

section \<open>Runs of an instance\<close>

text \<open>
  What can happen to an instance: a call of \<open>requestDevice\<close> or \<open>getDevices\<close> with what
  the adapter and the selection callback answer, a native connect or disconnect event of
  the adapter, and the application adding or removing a listener of its own. The adapter
  calls the instance's callback once for each of its registrations.
\<close>

datatype operation =
    RequestDevice "devicesFound option" optionsValue "error + USBDevice list"
  | GetDevices "error + USBDevice list"
  | AdapterConnect USBDevice
  | AdapterDisconnect nat
  | AddListener event nat
  | RemoveListenerOp event nat

fun step :: "operation \<Rightarrow> USB \<Rightarrow> USB" where
  "step (RequestDevice found options listUSBDevices) s =
     snd (requestDevice found options listUSBDevices s)"
| "step (GetDevices listUSBDevices) s = snd (getDevices listUSBDevices s)"
| "step (AdapterConnect device) s =
     ((\<lambda>t. snd (deviceConnectCallback device t)) ^^ subscriptions EVENT_DEVICE_CONNECT s) s"
| "step (AdapterDisconnect h) s =
     ((\<lambda>t. snd (deviceDisconnectCallback h t)) ^^ subscriptions EVENT_DEVICE_DISCONNECT s) s"
| "step (AddListener ev n) s = on ev (User n) s"
| "step (RemoveListenerOp ev n) s = removeListener ev (User n) s"

definition run :: "operation list \<Rightarrow> USB \<Rightarrow> USB" where
  "run ops s = fold step ops s"

section \<open>Values used in the examples\<close>

text \<open>
  A filter with no field, and a keyboard whose device class is 0 (the class is given per
  interface) with one interface of class 3 (HID).
\<close>

definition noFilter :: USBDeviceFilter where
  "noFilter = \<lparr>filterVendorId = None, filterProductId = None, classCode = None,
               subclassCode = None, protocolCode = None, serialnumber = None\<rparr>"

definition hidKeyboard :: USBDevice where
  "hidKeyboard = \<lparr>vendorId = 1133, productId = 49948, serialNumber = ''B'', connected = True,
                  deviceClass = 0, deviceSubclass = 0, deviceProtocol = 0,
                  configuration = \<lparr>interfaces =
                    [\<lparr>alternate = \<lparr>interfaceClass = 3, interfaceSubclass = 1,
                                   interfaceProtocol = 1\<rparr>\<rparr>]\<rparr>,
                  handle = 7\<rparr>"

definition unpluggedKeyboard :: USBDevice where
  "unpluggedKeyboard = hidKeyboard\<lparr>connected := False\<rparr>"

definition otherKeyboard :: USBDevice where
  "otherKeyboard = hidKeyboard\<lparr>serialNumber := ''C'', handle := 8\<rparr>"

section \<open>Notions of the specification\<close>

text \<open>
  The identity triple of a device record, an entry of the allowed-device list that has
  the identity of a device, and the invariant of the list, in the words of the
  specification. \<open>replaceEntry\<close> puts a device in the place of the first entry that has
  its identity, and \<open>replaceOrAppend\<close> is the rule of the specification for a selected
  device: an entry with the identity of the device is replaced in place, and the device
  is appended when there is none.
\<close>

definition identity :: "USBDevice \<Rightarrow> int \<times> int \<times> string" where
  "identity d = (vendorId d, productId d, serialNumber d)"

definition sameIdentity :: "USBDevice \<Rightarrow> USBDevice option \<Rightarrow> bool" where
  "sameIdentity d a = (case a of None \<Rightarrow> False | Some b \<Rightarrow> identity b = identity d)"

definition uniqueIdentities :: "USBDevice option list \<Rightarrow> bool" where
  "uniqueIdentities al = distinct (map (map_option identity) al)"

definition replaceEntry :: "USBDevice \<Rightarrow> USBDevice option list \<Rightarrow> USBDevice option list" where
  "replaceEntry d al = al[length (takeWhile (\<lambda>a. \<not> sameIdentity d a) al) := Some d]"

definition replaceOrAppend :: "USBDevice \<Rightarrow> USBDevice option list \<Rightarrow> USBDevice option list" where
  "replaceOrAppend d al =
     (if list_ex (sameIdentity d) al then replaceEntry d al else al @ [Some d])"

section \<open>Invariants of the event relay\<close>

text \<open>
  The two handlers of the constructor stay the only listeners that are not the
  application's, and for each of \<open>connect\<close> and \<open>disconnect\<close> the adapter holds one
  registration of the instance's callback when the event has a listener and none when it
  has not.
\<close>

definition isUser :: "listener \<Rightarrow> bool" where
  "isUser l = (case l of User n \<Rightarrow> True | _ \<Rightarrow> False)"

definition handlersInstalled :: "USB \<Rightarrow> bool" where
  "handlersInstalled s =
     (filter (\<lambda>(e, l). \<not> isUser l) (listeners s)
        = [(NewListener, NewListenerHandler), (RemoveListener, RemoveListenerHandler)])"

definition lazySubscription :: "USB \<Rightarrow> bool" where
  "lazySubscription s =
     (subscriptions EVENT_DEVICE_CONNECT s = (if listenerCount Connect s = 0 then 0 else 1)
      \<and> subscriptions EVENT_DEVICE_DISCONNECT s
          = (if listenerCount Disconnect s = 0 then 0 else 1))"

definition relayInvariant :: "USB \<Rightarrow> bool" where
  "relayInvariant s = (handlersInstalled s \<and> lazySubscription s)"


section \<open>Filter matching: class match on an interface\<close>

text \<open>
  Claim C1 says that a filter with a class code and a serial number, on a device with an
  interface that satisfies the class criteria, matches only if the serial number of the
  device passes too. In \<open>filterDevice\<close> the interface match returns true at once: the
  filter \<open>{classCode: 3, serialnumber: "A"}\<close> matches the keyboard, whose interface has
  class 3, although the serial number of the keyboard is \<open>"B"\<close>.
\<close>

theorem filterDevice_interface_match_skips_serial:
  "filterDevice [noFilter\<lparr>classCode := Some 3, serialnumber := Some ''A''\<rparr>] hidKeyboard
   \<and> list_ex (matchInterface (noFilter\<lparr>classCode := Some 3, serialnumber := Some ''A''\<rparr>))
        (interfaces (configuration hidKeyboard))
   \<and> serialNumber hidKeyboard \<noteq> ''A''"
  by (simp add: filterDevice_def matchFilter_def matchInterface_def noFilter_def
        hidKeyboard_def truthy_def truthyString_def)

section \<open>requestDevice: validation and failure\<close>

text \<open>
  Claim C2 says that a failed \<open>requestDevice\<close> leaves the allowed-device list as it
  was. When the selection callback returns nothing, the source rejects with "selected
  device not found" and then still calls \<open>selectFn\<close> with \<open>undefined\<close>: on a new instance,
  whose list is empty, \<open>undefined\<close> is appended to the list.
\<close>

theorem requestDevice_empty_selection_appends_undefined:
  "fst (requestDevice (Some (\<lambda>devices. Inr None)) (OptionsObject (FiltersArray [noFilter]))
          (Inr [hidKeyboard]) constructor)
     = Some (Inl (Error ''selected device not found''))
   \<and> allowedDevices constructor = []
   \<and> allowedDevices (snd (requestDevice (Some (\<lambda>devices. Inr None))
          (OptionsObject (FiltersArray [noFilter])) (Inr [hidKeyboard]) constructor)) = [None]"
  by (simp add: requestDevice_def checkFilter_def noFilter_def truthy_def truthyString_def
        onDevices_def filterDevice_def matchFilter_def selectFn_def catchError_def
        reject_def resolve_def constructor_def on_def emitListenerEvent_def listenersOf_def
        emptyUSB_def newListenerHandler_def listenerCount_def)

lemma checkFilters_append_invalid:
  "\<forall>g\<in>set pre. checkFilter g = None \<Longrightarrow> checkFilter f = Some e
   \<Longrightarrow> checkFilters (pre @ f # post) = Some e"
  by (induction pre) simp_all

text \<open>
  Claim C3: when the filters before \<open>f\<close> all respect the hierarchy, a filter \<open>f\<close> with
  a protocol code and no subclass code makes \<open>requestDevice\<close> reject with "subclass code
  is required", and one with a subclass code and no class code with "class code is
  required", whatever filters \<open>post\<close> follow \<open>f\<close>; the state is the one before the call,
  so the adapter has not been asked to enumerate. A field is set when it is truthy.
\<close>

theorem requestDevice_hierarchy_validation:
  assumes "\<forall>g\<in>set pre. (truthy (protocolCode g) \<longrightarrow> truthy (subclassCode g))
                        \<and> (truthy (subclassCode g) \<longrightarrow> truthy (classCode g))"
  shows "(truthy (protocolCode f) \<and> \<not> truthy (subclassCode f) \<longrightarrow>
            requestDevice found (OptionsObject (FiltersArray (pre @ f # post))) listUSBDevices s
              = (Some (Inl (TypeError ''requestDevice error: subclass code is required'')), s))
       \<and> (truthy (subclassCode f) \<and> \<not> truthy (classCode f) \<longrightarrow>
            requestDevice found (OptionsObject (FiltersArray (pre @ f # post))) listUSBDevices s
              = (Some (Inl (TypeError ''requestDevice error: class code is required'')), s))"
proof -
  from assms have pre: "\<forall>g\<in>set pre. checkFilter g = None"
    by (auto simp: checkFilter_def)
  show ?thesis
  proof (intro conjI impI)
    assume "truthy (protocolCode f) \<and> \<not> truthy (subclassCode f)"
    then have "checkFilter f = Some (TypeError ''requestDevice error: subclass code is required'')"
      by (simp add: checkFilter_def)
    with pre have "checkFilters (pre @ f # post)
        = Some (TypeError ''requestDevice error: subclass code is required'')"
      by (rule checkFilters_append_invalid)
    then show "requestDevice found (OptionsObject (FiltersArray (pre @ f # post))) listUSBDevices s
              = (Some (Inl (TypeError ''requestDevice error: subclass code is required'')), s)"
      by (simp add: requestDevice_def reject_def)
  next
    assume "truthy (subclassCode f) \<and> \<not> truthy (classCode f)"
    then have "checkFilter f = Some (TypeError ''requestDevice error: class code is required'')"
      by (simp add: checkFilter_def)
    with pre have "checkFilters (pre @ f # post)
        = Some (TypeError ''requestDevice error: class code is required'')"
      by (rule checkFilters_append_invalid)
    then show "requestDevice found (OptionsObject (FiltersArray (pre @ f # post))) listUSBDevices s
              = (Some (Inl (TypeError ''requestDevice error: class code is required'')), s)"
      by (simp add: requestDevice_def reject_def)
  qed
qed

theorem requestDevice_hierarchy_validation_witness:
  "truthy (subclassCode (noFilter\<lparr>classCode := Some 3, subclassCode := Some 1\<rparr>))
   \<and> truthy (classCode (noFilter\<lparr>classCode := Some 3, subclassCode := Some 1\<rparr>))
   \<and> \<not> truthy (protocolCode (noFilter\<lparr>classCode := Some 3, subclassCode := Some 1\<rparr>))
   \<and> truthy (protocolCode (noFilter\<lparr>protocolCode := Some 1\<rparr>))
   \<and> \<not> truthy (subclassCode (noFilter\<lparr>protocolCode := Some 1\<rparr>))
   \<and> requestDevice None
        (OptionsObject (FiltersArray
           ([noFilter\<lparr>classCode := Some 3, subclassCode := Some 1\<rparr>]
              @ noFilter\<lparr>protocolCode := Some 1\<rparr> # [noFilter\<lparr>subclassCode := Some 2\<rparr>])))
        (Inr [hidKeyboard]) constructor
       = (Some (Inl (TypeError ''requestDevice error: subclass code is required'')), constructor)
   \<and> truthy (subclassCode (noFilter\<lparr>subclassCode := Some 2\<rparr>))
   \<and> \<not> truthy (classCode (noFilter\<lparr>subclassCode := Some 2\<rparr>))
   \<and> requestDevice None
        (OptionsObject (FiltersArray
           ([noFilter\<lparr>classCode := Some 3, subclassCode := Some 1\<rparr>]
              @ noFilter\<lparr>subclassCode := Some 2\<rparr> # [noFilter\<lparr>protocolCode := Some 1\<rparr>])))
        (Inr [hidKeyboard]) constructor
       = (Some (Inl (TypeError ''requestDevice error: class code is required'')), constructor)"
  using requestDevice_hierarchy_validation
          [of "[noFilter\<lparr>classCode := Some 3, subclassCode := Some 1\<rparr>]"
              "noFilter\<lparr>protocolCode := Some 1\<rparr>"
              None "[noFilter\<lparr>subclassCode := Some 2\<rparr>]" "Inr [hidKeyboard]" constructor]
        requestDevice_hierarchy_validation
          [of "[noFilter\<lparr>classCode := Some 3, subclassCode := Some 1\<rparr>]"
              "noFilter\<lparr>subclassCode := Some 2\<rparr>"
              None "[noFilter\<lparr>protocolCode := Some 1\<rparr>]" "Inr [hidKeyboard]" constructor]
  by (simp add: noFilter_def truthy_def)

text \<open>
  Claim C4: with an empty sequence of filters the validation passes, no device matches,
  and \<open>requestDevice\<close> rejects with "no devices found", for every list of devices the
  adapter enumerates.
\<close>

theorem requestDevice_empty_filters_not_found:
  "checkFilters [] = None
   \<and> \<not> filterDevice [] device
   \<and> requestDevice found (OptionsObject (FiltersArray [])) (Inr devices) s
       = (Some (Inl (Error ''requestDevice error: no devices found'')),
          s\<lparr>listCalls := Suc (listCalls s)\<rparr>)"
proof -
  have "filter (filterDevice []) devices = []"
    by (induction devices) (simp_all add: filterDevice_def)
  then show ?thesis
    by (simp add: requestDevice_def onDevices_def catchError_def reject_def filterDevice_def)
qed

section \<open>Fields with the value 0\<close>

text \<open>
  Claim C9: a numeric field of a filter with the value 0 behaves as a field that is not
  there. In matching, a filter with \<open>vendorId\<close>, \<open>productId\<close>, \<open>classCode\<close>,
  \<open>subclassCode\<close> or \<open>protocolCode\<close> 0 matches the devices the filter without the field
  matches, and a filter with only such a field matches every device; in validation the
  class, subclass and protocol codes 0 count as unset, so a filter with a protocol code
  \<open>p\<close> other than 0 and the subclass code 0 is rejected with "subclass code is required".
\<close>

theorem zero_field_is_unset:
  "matchFilter (f\<lparr>filterVendorId := Some 0\<rparr>) d = matchFilter (f\<lparr>filterVendorId := None\<rparr>) d
   \<and> matchFilter (f\<lparr>filterProductId := Some 0\<rparr>) d = matchFilter (f\<lparr>filterProductId := None\<rparr>) d
   \<and> matchFilter (f\<lparr>classCode := Some 0\<rparr>) d = matchFilter (f\<lparr>classCode := None\<rparr>) d
   \<and> matchFilter (f\<lparr>subclassCode := Some 0\<rparr>) d = matchFilter (f\<lparr>subclassCode := None\<rparr>) d
   \<and> matchFilter (f\<lparr>protocolCode := Some 0\<rparr>) d = matchFilter (f\<lparr>protocolCode := None\<rparr>) d
   \<and> matchFilter (noFilter\<lparr>filterVendorId := Some 0\<rparr>) d
   \<and> matchFilter (noFilter\<lparr>filterProductId := Some 0\<rparr>) d
   \<and> matchFilter (noFilter\<lparr>classCode := Some 0\<rparr>) d
   \<and> matchFilter (noFilter\<lparr>subclassCode := Some 0\<rparr>) d
   \<and> matchFilter (noFilter\<lparr>protocolCode := Some 0\<rparr>) d
   \<and> checkFilter (f\<lparr>classCode := Some 0\<rparr>) = checkFilter (f\<lparr>classCode := None\<rparr>)
   \<and> checkFilter (f\<lparr>subclassCode := Some 0\<rparr>) = checkFilter (f\<lparr>subclassCode := None\<rparr>)
   \<and> checkFilter (f\<lparr>protocolCode := Some 0\<rparr>) = checkFilter (f\<lparr>protocolCode := None\<rparr>)
   \<and> (p \<noteq> 0 \<longrightarrow>
        requestDevice found
          (OptionsObject (FiltersArray [f\<lparr>protocolCode := Some p, subclassCode := Some 0\<rparr>]))
          listUSBDevices s
        = (Some (Inl (TypeError ''requestDevice error: subclass code is required'')), s))"
proof -
  have t: "truthy (Some 0) = False" "truthy None = False"
    by (simp_all add: truthy_def)
  have mi: "\<And>v. matchInterface (f\<lparr>filterVendorId := v\<rparr>) = matchInterface f"
    "\<And>v. matchInterface (f\<lparr>filterProductId := v\<rparr>) = matchInterface f"
    "matchInterface (f\<lparr>classCode := Some 0\<rparr>) = matchInterface (f\<lparr>classCode := None\<rparr>)"
    "matchInterface (f\<lparr>subclassCode := Some 0\<rparr>) = matchInterface (f\<lparr>subclassCode := None\<rparr>)"
    "matchInterface (f\<lparr>protocolCode := Some 0\<rparr>) = matchInterface (f\<lparr>protocolCode := None\<rparr>)"
    by (rule ext, simp add: matchInterface_def t)+
  have m1: "matchFilter (f\<lparr>filterVendorId := Some 0\<rparr>) d = matchFilter (f\<lparr>filterVendorId := None\<rparr>) d"
    by (simp add: matchFilter_def mi t)
  have m2: "matchFilter (f\<lparr>filterProductId := Some 0\<rparr>) d = matchFilter (f\<lparr>filterProductId := None\<rparr>) d"
    by (simp add: matchFilter_def mi t)
  have m3: "matchFilter (f\<lparr>classCode := Some 0\<rparr>) d = matchFilter (f\<lparr>classCode := None\<rparr>) d"
    by (simp add: matchFilter_def mi t)
  have m4: "matchFilter (f\<lparr>subclassCode := Some 0\<rparr>) d = matchFilter (f\<lparr>subclassCode := None\<rparr>) d"
    by (simp add: matchFilter_def mi t)
  have m5: "matchFilter (f\<lparr>protocolCode := Some 0\<rparr>) d = matchFilter (f\<lparr>protocolCode := None\<rparr>) d"
    by (simp add: matchFilter_def mi t)
  have n: "matchFilter (noFilter\<lparr>filterVendorId := Some 0\<rparr>) d"
    "matchFilter (noFilter\<lparr>filterProductId := Some 0\<rparr>) d"
    "matchFilter (noFilter\<lparr>classCode := Some 0\<rparr>) d"
    "matchFilter (noFilter\<lparr>subclassCode := Some 0\<rparr>) d"
    "matchFilter (noFilter\<lparr>protocolCode := Some 0\<rparr>) d"
    by (simp_all add: matchFilter_def noFilter_def truthy_def truthyString_def)
  have c: "checkFilter (f\<lparr>classCode := Some 0\<rparr>) = checkFilter (f\<lparr>classCode := None\<rparr>)"
    "checkFilter (f\<lparr>subclassCode := Some 0\<rparr>) = checkFilter (f\<lparr>subclassCode := None\<rparr>)"
    "checkFilter (f\<lparr>protocolCode := Some 0\<rparr>) = checkFilter (f\<lparr>protocolCode := None\<rparr>)"
    by (simp_all add: checkFilter_def t)
  have r: "p \<noteq> 0 \<longrightarrow>
        requestDevice found
          (OptionsObject (FiltersArray [f\<lparr>protocolCode := Some p, subclassCode := Some 0\<rparr>]))
          listUSBDevices s
        = (Some (Inl (TypeError ''requestDevice error: subclass code is required'')), s)"
    by (simp add: requestDevice_def checkFilter_def truthy_def reject_def)
  from m1 m2 m3 m4 m5 n c r show ?thesis by blast
qed

theorem zero_field_is_unset_witness:
  "(5::int) \<noteq> 0
   \<and> matchFilter (noFilter\<lparr>filterVendorId := Some 0\<rparr>) hidKeyboard
   \<and> requestDevice None
        (OptionsObject (FiltersArray [noFilter\<lparr>protocolCode := Some 5, subclassCode := Some 0\<rparr>]))
        (Inr [hidKeyboard]) constructor
      = (Some (Inl (TypeError ''requestDevice error: subclass code is required'')), constructor)"
  using zero_field_is_unset [of noFilter hidKeyboard 5 None "Inr [hidKeyboard]" constructor]
  by (simp add: matchFilter_def noFilter_def truthy_def truthyString_def)

section \<open>getDevices\<close>

lemma isSameDevice_Some:
  "isSameDevice (Some d) (Some a) = Inr (sameIdentity d (Some a))"
  by (auto simp: isSameDevice_def sameIdentity_def identity_def)






section \<open>The allowed-device list: replace or append\<close>

lemma replaceAllowedDevice_records:
  "None \<notin> set al \<Longrightarrow>
   replaceAllowedDevice (Some d) al
     = Inr (list_ex (sameIdentity d) al,
            if list_ex (sameIdentity d) al then replaceEntry d al else al)"
proof (induction al)
  case Nil
  then show ?case by simp
next
  case (Cons a al)
  then obtain b where a: "a = Some b" by (cases a) auto
  show ?case
  proof (cases "sameIdentity d (Some b)")
    case True
    then show ?thesis by (simp add: a isSameDevice_Some replaceEntry_def)
  next
    case False
    with Cons show ?thesis by (simp add: a isSameDevice_Some replaceEntry_def)
  qed
qed

lemma replaceAllowedDevice_found_identities:
  "replaceAllowedDevice dev al = Inr (True, al')
   \<Longrightarrow> map (map_option identity) al' = map (map_option identity) al"
proof (induction al arbitrary: al')
  case Nil
  then show ?case by simp
next
  case (Cons a al)
  then show ?case
    by (auto simp: isSameDevice_def identity_def
             split: sum.splits bool.splits option.splits prod.splits)
qed

lemma replaceAllowedDevice_not_found:
  "replaceAllowedDevice dev al = Inr (False, al')
   \<Longrightarrow> al' = al \<and> map_option identity dev \<notin> set (map (map_option identity) al)"
proof (induction al arbitrary: al')
  case Nil
  then show ?case by simp
next
  case (Cons a al)
  then show ?case
    by (auto simp: isSameDevice_def identity_def
             split: sum.splits bool.splits option.splits prod.splits)
qed

lemma selectFn_unique:
  "uniqueIdentities (allowedDevices s)
   \<Longrightarrow> uniqueIdentities (allowedDevices (snd (snd (selectFn dev p s))))"
  by (auto simp: selectFn_def uniqueIdentities_def
           dest: replaceAllowedDevice_found_identities replaceAllowedDevice_not_found
           split: sum.splits bool.splits prod.splits)

lemma onDevices_unique:
  "uniqueIdentities (allowedDevices s)
   \<Longrightarrow> uniqueIdentities (allowedDevices (snd (snd (onDevices found filters listed p s))))"
  by (simp add: onDevices_def selectFn_unique split: list.splits option.splits sum.splits)

lemma catchError_state: "snd (catchError r) = snd (snd r)"
  by (simp add: catchError_def split: prod.splits option.splits)

lemma requestDevice_unique:
  "uniqueIdentities (allowedDevices s)
   \<Longrightarrow> uniqueIdentities (allowedDevices (snd (requestDevice found options listUSBDevices s)))"
  by (simp add: requestDevice_def Let_def catchError_state onDevices_unique
           split: optionsValue.splits filtersValue.splits option.splits sum.splits)


lemma getDevices_allowedDevices:
  "allowedDevices (snd (getDevices listUSBDevices s)) = allowedDevices s"
  by (simp add: getDevices_def Let_def split: sum.splits)

lemma deviceConnectCallback_unique:
  "uniqueIdentities (allowedDevices s)
   \<Longrightarrow> uniqueIdentities (allowedDevices (snd (deviceConnectCallback device s)))"
  by (auto simp: deviceConnectCallback_def uniqueIdentities_def
           dest: replaceAllowedDevice_found_identities
           split: sum.splits bool.splits prod.splits)

lemma deviceDisconnectCallback_allowedDevices:
  "allowedDevices (snd (deviceDisconnectCallback h s)) = allowedDevices s"
  by (simp add: deviceDisconnectCallback_def split: sum.splits option.splits)

lemma funpow_invariant:
  "P s \<Longrightarrow> (\<And>t. P t \<Longrightarrow> P (f t)) \<Longrightarrow> P ((f ^^ n) s)"
  by (induction n) simp_all

lemma callListener_allowedDevices:
  "allowedDevices (callListener ev l s) = allowedDevices s"
  by (cases l)
     (simp_all add: newListenerHandler_def removeListenerHandler_def
        adapterAddListener_def adapterRemoveListener_def)

lemma fold_callListener_allowedDevices:
  "allowedDevices (fold (callListener ev) ls s) = allowedDevices s"
  by (induction ls arbitrary: s) (simp_all add: callListener_allowedDevices)

lemma on_allowedDevices: "allowedDevices (on ev l s) = allowedDevices s"
  by (simp add: on_def Let_def emitListenerEvent_def fold_callListener_allowedDevices)

lemma removeListener_allowedDevices: "allowedDevices (removeListener ev l s) = allowedDevices s"
  by (simp add: removeListener_def emitListenerEvent_def fold_callListener_allowedDevices)

lemma step_unique:
  "uniqueIdentities (allowedDevices s) \<Longrightarrow> uniqueIdentities (allowedDevices (step operation s))"
proof (cases operation)
  case (RequestDevice found options listUSBDevices)
  assume "uniqueIdentities (allowedDevices s)"
  with RequestDevice show ?thesis by (simp add: requestDevice_unique)
next
  case (GetDevices listUSBDevices)
  assume "uniqueIdentities (allowedDevices s)"
  with GetDevices show ?thesis by (simp add: getDevices_allowedDevices)
next
  case (AdapterConnect device)
  assume u: "uniqueIdentities (allowedDevices s)"
  have "uniqueIdentities (allowedDevices
          (((\<lambda>t. snd (deviceConnectCallback device t)) ^^ n) s))" for n
    by (rule funpow_invariant [where P = "\<lambda>t. uniqueIdentities (allowedDevices t)"])
       (simp_all add: u deviceConnectCallback_unique)
  with AdapterConnect show ?thesis by simp
next
  case (AdapterDisconnect h)
  assume u: "uniqueIdentities (allowedDevices s)"
  have "uniqueIdentities (allowedDevices
          (((\<lambda>t. snd (deviceDisconnectCallback h t)) ^^ n) s))" for n
    by (rule funpow_invariant [where P = "\<lambda>t. uniqueIdentities (allowedDevices t)"])
       (simp_all add: u deviceDisconnectCallback_allowedDevices)
  with AdapterDisconnect show ?thesis by simp
next
  case (AddListener ev n)
  assume "uniqueIdentities (allowedDevices s)"
  with AddListener show ?thesis by (simp add: on_allowedDevices)
next
  case (RemoveListenerOp ev n)
  assume "uniqueIdentities (allowedDevices s)"
  with RemoveListenerOp show ?thesis by (simp add: removeListener_allowedDevices)
qed

lemma run_unique:
  "uniqueIdentities (allowedDevices s) \<Longrightarrow> uniqueIdentities (allowedDevices (run ops s))"
  unfolding run_def by (induction ops arbitrary: s) (simp_all add: step_unique)

lemma constructor_allowedDevices: "allowedDevices constructor = []"
  by (simp add: constructor_def on_allowedDevices emptyUSB_def)

lemma selectFn_records:
  "None \<notin> set (allowedDevices s) \<Longrightarrow>
   selectFn (Some d) p s
     = (None, resolve (Some d) p, s\<lparr>allowedDevices := replaceOrAppend d (allowedDevices s)\<rparr>)"
  by (simp add: selectFn_def replaceAllowedDevice_records replaceOrAppend_def)

lemma constructor_state:
  "constructor = \<lparr>allowedDevices = [],
                   listeners = [(NewListener, NewListenerHandler),
                                (RemoveListener, RemoveListenerHandler)],
                   adapterListeners = [], listCalls = 0, emitted = []\<rparr>"
  by (simp add: constructor_def on_def emitListenerEvent_def listenersOf_def emptyUSB_def
        newListenerHandler_def listenerCount_def)

lemma replaceEntry_identities:
  "list_ex (sameIdentity d) al
   \<Longrightarrow> map (map_option identity) (replaceEntry d al) = map (map_option identity) al"
proof (induction al)
  case Nil
  then show ?case by simp
next
  case (Cons a al)
  show ?case
  proof (cases "sameIdentity d a")
    case True
    then show ?thesis
      by (auto simp: replaceEntry_def sameIdentity_def split: option.splits)
  next
    case False
    with Cons have "map (map_option identity) (replaceEntry d al) = map (map_option identity) al"
      by simp
    with False show ?thesis by (simp add: replaceEntry_def)
  qed
qed

lemma requestDevice_first_match:
  assumes "None \<notin> set (allowedDevices s)"
    and "checkFilters filters = None"
    and "filter (filterDevice filters) devices = first # others"
  shows "requestDevice None (OptionsObject (FiltersArray filters)) (Inr devices) s
           = (Some (Inr (Some first)),
              s\<lparr>listCalls := Suc (listCalls s),
                allowedDevices := replaceOrAppend first (allowedDevices s)\<rparr>)"
  using assms
  by (simp add: requestDevice_def Let_def onDevices_def selectFn_records catchError_def
        resolve_def)

lemma requestDevice_chosen:
  assumes "None \<notin> set (allowedDevices s)"
    and "checkFilters filters = None"
    and "filter (filterDevice filters) devices = first # others"
    and "devicesFound (first # others) = Inr (Some d)"
  shows "requestDevice (Some devicesFound) (OptionsObject (FiltersArray filters)) (Inr devices) s
           = (Some (Inr (Some d)),
              s\<lparr>listCalls := Suc (listCalls s),
                allowedDevices := replaceOrAppend d (allowedDevices s)\<rparr>)"
  using assms
  by (simp add: requestDevice_def Let_def onDevices_def selectFn_records catchError_def
        resolve_def)

text \<open>
  Claim C6: no two entries of the allowed-device list have the same identity triple.
  The list of a new instance is empty; every operation keeps the invariant, so it holds
  after every sequence of operations on a new instance. On a list of device records, a
  valid \<open>requestDevice\<close> with at least one matching device stores the selected device by
  replace or append: the first matching device of the enumeration when no selection
  callback is configured, and the device the callback returns otherwise; \<open>selectFn\<close>
  itself does the same for any device. Replacing keeps the length of the list and the
  identity at every position, and the device is appended only when no entry has its
  identity.
\<close>

theorem allowedDevices_unique_identities:
  "uniqueIdentities (allowedDevices (run ops constructor))
   \<and> (uniqueIdentities (allowedDevices s)
        \<longrightarrow> uniqueIdentities (allowedDevices (step operation s)))
   \<and> (None \<notin> set (allowedDevices s) \<longrightarrow>
        selectFn (Some d) p s
          = (None, resolve (Some d) p,
             s\<lparr>allowedDevices := replaceOrAppend d (allowedDevices s)\<rparr>))
   \<and> (None \<notin> set (allowedDevices s) \<and> checkFilters filters = None
        \<and> filter (filterDevice filters) devices = first # others \<longrightarrow>
        requestDevice None (OptionsObject (FiltersArray filters)) (Inr devices) s
          = (Some (Inr (Some first)),
             s\<lparr>listCalls := Suc (listCalls s),
               allowedDevices := replaceOrAppend first (allowedDevices s)\<rparr>))
   \<and> (None \<notin> set (allowedDevices s) \<and> checkFilters filters = None
        \<and> filter (filterDevice filters) devices = first # others
        \<and> devicesFound (first # others) = Inr (Some d) \<longrightarrow>
        requestDevice (Some devicesFound) (OptionsObject (FiltersArray filters)) (Inr devices) s
          = (Some (Inr (Some d)),
             s\<lparr>listCalls := Suc (listCalls s),
               allowedDevices := replaceOrAppend d (allowedDevices s)\<rparr>))
   \<and> (list_ex (sameIdentity d) al \<longrightarrow>
        length (replaceOrAppend d al) = length al
        \<and> map (map_option identity) (replaceOrAppend d al) = map (map_option identity) al
        \<and> Some d \<in> set (replaceOrAppend d al))
   \<and> (\<not> list_ex (sameIdentity d) al \<longrightarrow> replaceOrAppend d al = al @ [Some d])"
proof -
  have "uniqueIdentities (allowedDevices constructor)"
    by (simp add: constructor_allowedDevices uniqueIdentities_def)
  then have run: "uniqueIdentities (allowedDevices (run ops constructor))"
    by (rule run_unique)
  have pos: "length (takeWhile (\<lambda>a. \<not> sameIdentity d a) al) < length al"
    if "list_ex (sameIdentity d) al"
    using that by (induction al) auto
  have mem: "Some d \<in> set (replaceEntry d al)" if "list_ex (sameIdentity d) al"
    unfolding replaceEntry_def using pos [OF that] by (rule set_update_memI)
  have rep: "list_ex (sameIdentity d) al \<longrightarrow>
        length (replaceOrAppend d al) = length al
        \<and> map (map_option identity) (replaceOrAppend d al) = map (map_option identity) al
        \<and> Some d \<in> set (replaceOrAppend d al)"
    using mem by (simp add: replaceOrAppend_def replaceEntry_identities) (simp add: replaceEntry_def)
  have app: "\<not> list_ex (sameIdentity d) al \<longrightarrow> replaceOrAppend d al = al @ [Some d]"
    by (simp add: replaceOrAppend_def)
  show ?thesis
    using run rep app
    by (simp add: step_unique selectFn_records requestDevice_first_match requestDevice_chosen)
qed

theorem allowedDevices_unique_identities_witness:
  "uniqueIdentities (allowedDevices (constructor\<lparr>allowedDevices := [Some hidKeyboard]\<rparr>))
   \<and> None \<notin> set (allowedDevices (constructor\<lparr>allowedDevices := [Some hidKeyboard]\<rparr>))
   \<and> checkFilters [noFilter] = None
   \<and> filter (filterDevice [noFilter]) [unpluggedKeyboard, otherKeyboard]
       = unpluggedKeyboard # [otherKeyboard]
   \<and> requestDevice None (OptionsObject (FiltersArray [noFilter]))
        (Inr [unpluggedKeyboard, otherKeyboard])
        (constructor\<lparr>allowedDevices := [Some hidKeyboard]\<rparr>)
       = (Some (Inr (Some unpluggedKeyboard)),
          constructor\<lparr>listCalls := 1, allowedDevices := [Some unpluggedKeyboard]\<rparr>)
   \<and> requestDevice (Some (\<lambda>devices. Inr (Some otherKeyboard)))
        (OptionsObject (FiltersArray [noFilter])) (Inr [unpluggedKeyboard, otherKeyboard])
        (constructor\<lparr>allowedDevices := [Some hidKeyboard]\<rparr>)
       = (Some (Inr (Some otherKeyboard)),
          constructor\<lparr>listCalls := 1,
                      allowedDevices := [Some hidKeyboard, Some otherKeyboard]\<rparr>)
   \<and> allowedDevices
        (step (RequestDevice None (OptionsObject (FiltersArray [noFilter]))
                 (Inr [unpluggedKeyboard, otherKeyboard]))
           (constructor\<lparr>allowedDevices := [Some hidKeyboard]\<rparr>))
       = [Some unpluggedKeyboard]
   \<and> uniqueIdentities [Some unpluggedKeyboard]
   \<and> selectFn (Some otherKeyboard) None (constructor\<lparr>allowedDevices := [Some hidKeyboard]\<rparr>)
       = (None, Some (Inr (Some otherKeyboard)),
          constructor\<lparr>allowedDevices := [Some hidKeyboard, Some otherKeyboard]\<rparr>)
   \<and> list_ex (sameIdentity unpluggedKeyboard) [Some otherKeyboard, Some hidKeyboard]
   \<and> replaceOrAppend unpluggedKeyboard [Some otherKeyboard, Some hidKeyboard]
       = [Some otherKeyboard, Some unpluggedKeyboard]
   \<and> allowedDevices
        (run [RequestDevice None (OptionsObject (FiltersArray [noFilter]))
                (Inr [hidKeyboard, otherKeyboard]),
              RequestDevice None (OptionsObject (FiltersArray [noFilter]))
                (Inr [otherKeyboard, hidKeyboard]),
              RequestDevice None (OptionsObject (FiltersArray [noFilter]))
                (Inr [unpluggedKeyboard, otherKeyboard])]
           constructor)
       = [Some unpluggedKeyboard, Some otherKeyboard]"
  using allowedDevices_unique_identities
          [of "[]" "constructor\<lparr>allowedDevices := [Some hidKeyboard]\<rparr>"
              "RequestDevice None (OptionsObject (FiltersArray [noFilter]))
                 (Inr [unpluggedKeyboard, otherKeyboard])"
              otherKeyboard None "[noFilter]" "[unpluggedKeyboard, otherKeyboard]"
              unpluggedKeyboard "[otherKeyboard]" "\<lambda>devices. Inr (Some otherKeyboard)"
              "[Some otherKeyboard, Some hidKeyboard]"]
  by (simp add: constructor_state uniqueIdentities_def identity_def run_def
        requestDevice_def checkFilter_def truthy_def truthyString_def noFilter_def
        onDevices_def filterDevice_def matchFilter_def selectFn_def catchError_def
        isSameDevice_def resolve_def reject_def replaceOrAppend_def replaceEntry_def
        sameIdentity_def hidKeyboard_def unpluggedKeyboard_def otherKeyboard_def)

section \<open>Adapter connect notifications\<close>

lemma replaceAllowedDevice_no_match:
  "\<not> list_ex (sameIdentity d) al \<Longrightarrow>
   replaceAllowedDevice (Some d) al = Inr (False, al)
   \<or> (\<exists>e. replaceAllowedDevice (Some d) al = Inl e)"
proof (induction al)
  case Nil
  then show ?case by simp
next
  case (Cons a al)
  show ?case
  proof (cases a)
    case None
    then show ?thesis by (simp add: isSameDevice_def)
  next
    case (Some b)
    with Cons show ?thesis by (auto simp: isSameDevice_Some)
  qed
qed

text \<open>
  Claim C8: on a connect notification of the adapter for a device whose identity is
  that of an entry of the allowed-device list, the entry is replaced in place by the new
  record and a \<open>connect\<close> event with the new record is emitted; when no entry has the
  identity of the device, nothing is emitted and the list is as before (the state of the
  instance is unchanged).
\<close>

theorem deviceConnectCallback_allowed:
  "(None \<notin> set (allowedDevices s) \<and> list_ex (sameIdentity device) (allowedDevices s) \<longrightarrow>
      deviceConnectCallback device s
        = (None, s\<lparr>allowedDevices := replaceEntry device (allowedDevices s),
                   emitted := emitted s @ [(Connect, device)]\<rparr>))
   \<and> (None \<notin> set (allowedDevices s) \<and> \<not> list_ex (sameIdentity device) (allowedDevices s) \<longrightarrow>
        deviceConnectCallback device s = (None, s))
   \<and> (\<not> list_ex (sameIdentity device) (allowedDevices s) \<longrightarrow>
        snd (deviceConnectCallback device s) = s)"
proof (intro conjI impI)
  assume "None \<notin> set (allowedDevices s) \<and> list_ex (sameIdentity device) (allowedDevices s)"
  then show "deviceConnectCallback device s
        = (None, s\<lparr>allowedDevices := replaceEntry device (allowedDevices s),
                   emitted := emitted s @ [(Connect, device)]\<rparr>)"
    by (simp add: deviceConnectCallback_def replaceAllowedDevice_records)
next
  assume "None \<notin> set (allowedDevices s) \<and> \<not> list_ex (sameIdentity device) (allowedDevices s)"
  then show "deviceConnectCallback device s = (None, s)"
    by (simp add: deviceConnectCallback_def replaceAllowedDevice_records)
next
  assume "\<not> list_ex (sameIdentity device) (allowedDevices s)"
  then have "replaceAllowedDevice (Some device) (allowedDevices s) = Inr (False, allowedDevices s)
             \<or> (\<exists>e. replaceAllowedDevice (Some device) (allowedDevices s) = Inl e)"
    by (rule replaceAllowedDevice_no_match)
  then show "snd (deviceConnectCallback device s) = s"
    by (auto simp: deviceConnectCallback_def)
qed

theorem deviceConnectCallback_allowed_witness:
  "None \<notin> set (allowedDevices
            (constructor\<lparr>allowedDevices := [Some otherKeyboard, Some unpluggedKeyboard]\<rparr>))
   \<and> list_ex (sameIdentity hidKeyboard) [Some otherKeyboard, Some unpluggedKeyboard]
   \<and> deviceConnectCallback hidKeyboard
        (constructor\<lparr>allowedDevices := [Some otherKeyboard, Some unpluggedKeyboard]\<rparr>)
       = (None, constructor\<lparr>allowedDevices := [Some otherKeyboard, Some hidKeyboard],
                            emitted := [(Connect, hidKeyboard)]\<rparr>)
   \<and> None \<notin> set (allowedDevices (constructor\<lparr>allowedDevices := [Some otherKeyboard]\<rparr>))
   \<and> \<not> list_ex (sameIdentity hidKeyboard) [Some otherKeyboard]
   \<and> deviceConnectCallback hidKeyboard (constructor\<lparr>allowedDevices := [Some otherKeyboard]\<rparr>)
       = (None, constructor\<lparr>allowedDevices := [Some otherKeyboard]\<rparr>)"
  using deviceConnectCallback_allowed
          [of "constructor\<lparr>allowedDevices := [Some otherKeyboard, Some unpluggedKeyboard]\<rparr>"
              hidKeyboard]
        deviceConnectCallback_allowed
          [of "constructor\<lparr>allowedDevices := [Some otherKeyboard]\<rparr>" hidKeyboard]
  by (simp add: constructor_state identity_def replaceEntry_def sameIdentity_def
        hidKeyboard_def unpluggedKeyboard_def otherKeyboard_def)

section \<open>requestDevice: the selection callback\<close>



section \<open>The event relay\<close>

lemma filter_remove1_other: "\<not> P x \<Longrightarrow> filter P (remove1 x xs) = filter P xs"
  by (induction xs) auto

lemma filter_removeLast_other: "\<not> P x \<Longrightarrow> filter P (removeLast x xs) = filter P xs"
  by (simp add: removeLast_def rev_filter [symmetric] filter_remove1_other)

lemma length_filter_remove1:
  "x \<in> set xs \<Longrightarrow> P x \<Longrightarrow> length (filter P (remove1 x xs)) = length (filter P xs) - 1"
proof (induction xs)
  case Nil
  then show ?case by simp
next
  case (Cons y ys)
  show ?case
  proof (cases "x = y")
    case True
    with Cons.prems show ?thesis by simp
  next
    case False
    with Cons.prems have "x \<in> set ys" by simp
    then have "filter P ys \<noteq> []" using Cons.prems(2) by (auto simp: filter_empty_conv)
    then have "0 < length (filter P ys)" by simp
    with Cons False \<open>x \<in> set ys\<close> show ?thesis by simp
  qed
qed

lemma length_filter_removeLast:
  "x \<in> set xs \<Longrightarrow> P x \<Longrightarrow> length (filter P (removeLast x xs)) = length (filter P xs) - 1"
proof -
  assume a: "x \<in> set xs" "P x"
  have "length (filter P (removeLast x xs)) = length (filter P (remove1 x (rev xs)))"
    by (simp add: removeLast_def rev_filter [symmetric])
  also have "\<dots> = length (filter P (rev xs)) - 1"
    using a by (simp add: length_filter_remove1)
  also have "\<dots> = length (filter P xs) - 1"
    by (simp add: rev_filter [symmetric])
  finally show ?thesis .
qed

lemma removeLast_absent: "x \<notin> set xs \<Longrightarrow> removeLast x xs = xs"
  by (simp add: removeLast_def remove1_idem)

lemma callListener_user: "isUser l \<Longrightarrow> callListener ev l s = s"
  by (cases l) (simp_all add: isUser_def)

lemma fold_callListener_handlers:
  "fold (callListener ev) ls s = fold (callListener ev) (filter (\<lambda>l. \<not> isUser l) ls) s"
  by (induction ls arbitrary: s) (simp_all add: callListener_user)

lemma handlers_of_event:
  "filter (\<lambda>l. \<not> isUser l) (map snd (filter (\<lambda>(e, l). e = ev) xs))
     = map snd (filter (\<lambda>(e, l). e = ev) (filter (\<lambda>(e, l). \<not> isUser l) xs))"
  by (induction xs) auto

lemma emit_newListener:
  "handlersInstalled s \<Longrightarrow> emitListenerEvent NewListener ev s = newListenerHandler ev s"
  unfolding emitListenerEvent_def listenersOf_def handlersInstalled_def
  by (subst fold_callListener_handlers) (simp add: handlers_of_event)

lemma emit_removeListener:
  "handlersInstalled s \<Longrightarrow> emitListenerEvent RemoveListener ev s = removeListenerHandler ev s"
  unfolding emitListenerEvent_def listenersOf_def handlersInstalled_def
  by (subst fold_callListener_handlers) (simp add: handlers_of_event)

lemma on_user:
  "handlersInstalled s \<Longrightarrow>
   on ev (User n) s
     = (newListenerHandler ev s)\<lparr>listeners := listeners s @ [(ev, User n)]\<rparr>"
  by (simp add: on_def Let_def emit_newListener newListenerHandler_def adapterAddListener_def)

lemma removeListener_user:
  "handlersInstalled s \<Longrightarrow>
   removeListener ev (User n) s
     = (if (ev, User n) \<in> set (listeners s)
        then removeListenerHandler ev (s\<lparr>listeners := removeLast (ev, User n) (listeners s)\<rparr>)
        else s)"
  by (simp add: removeListener_def emit_removeListener handlersInstalled_def
        filter_removeLast_other isUser_def)

lemma subscriptions_add:
  "subscriptions ev' (adapterAddListener ev s)
     = (if ev' = ev then Suc (subscriptions ev' s) else subscriptions ev' s)"
  by (simp add: subscriptions_def adapterAddListener_def)

lemma subscriptions_removeLast:
  "length (filter (\<lambda>e. e = ev') (removeLast ev xs))
     = (if ev' = ev then length (filter (\<lambda>e. e = ev') xs) - 1
        else length (filter (\<lambda>e. e = ev') xs))"
proof (cases "ev \<in> set xs")
  case True
  then show ?thesis
    by (simp add: length_filter_removeLast filter_removeLast_other)
next
  case False
  then have "filter (\<lambda>e. e = ev) xs = []" by (auto simp: filter_empty_conv)
  with False show ?thesis by (auto simp: removeLast_absent)
qed

lemma subscriptions_remove:
  "subscriptions ev' (adapterRemoveListener ev s)
     = (if ev' = ev then subscriptions ev' s - 1 else subscriptions ev' s)"
  by (simp add: subscriptions_def adapterRemoveListener_def subscriptions_removeLast)

lemma subscriptions_listeners: "subscriptions ev' (s\<lparr>listeners := ls\<rparr>) = subscriptions ev' s"
  by (simp add: subscriptions_def)

lemma listenerCount_adapter:
  "listenerCount ev' (adapterAddListener ev s) = listenerCount ev' s"
  "listenerCount ev' (adapterRemoveListener ev s) = listenerCount ev' s"
  by (simp_all add: listenerCount_def adapterAddListener_def adapterRemoveListener_def)

lemma listenerCount_append:
  "listenerCount ev' (s\<lparr>listeners := listeners s @ [(ev, l)]\<rparr>)
     = (if ev' = ev then Suc (listenerCount ev' s) else listenerCount ev' s)"
  by (simp add: listenerCount_def)

lemma listenerCount_removeLast:
  "(ev, l) \<in> set (listeners s) \<Longrightarrow>
   listenerCount ev' (s\<lparr>listeners := removeLast (ev, l) (listeners s)\<rparr>)
     = (if ev' = ev then listenerCount ev' s - 1 else listenerCount ev' s)"
  by (simp add: listenerCount_def length_filter_removeLast filter_removeLast_other)

lemma listenerCount_positive: "(ev, l) \<in> set (listeners s) \<Longrightarrow> 0 < listenerCount ev s"
  by (auto simp: listenerCount_def filter_empty_conv)

lemma listenerCount_newListenerHandler:
  "listenerCount ev' (newListenerHandler ev s) = listenerCount ev' s"
  by (simp add: newListenerHandler_def listenerCount_adapter)

lemma listenerCount_removeListenerHandler:
  "listenerCount ev' (removeListenerHandler ev s) = listenerCount ev' s"
  by (simp add: removeListenerHandler_def listenerCount_adapter)

lemma listeners_newListenerHandler: "listeners (newListenerHandler ev s) = listeners s"
  by (simp add: newListenerHandler_def adapterAddListener_def)

lemma listeners_removeListenerHandler: "listeners (removeListenerHandler ev s) = listeners s"
  by (simp add: removeListenerHandler_def adapterRemoveListener_def)

lemma handlersInstalled_on:
  "handlersInstalled s \<Longrightarrow> handlersInstalled (on ev (User n) s)"
  by (simp add: on_user)
     (simp add: handlersInstalled_def isUser_def)

lemma handlersInstalled_removeListener:
  "handlersInstalled s \<Longrightarrow> handlersInstalled (removeListener ev (User n) s)"
  by (simp add: removeListener_user)
     (simp add: handlersInstalled_def isUser_def listeners_removeListenerHandler
        filter_removeLast_other)

lemma listenerCount_on:
  assumes "handlersInstalled s"
  shows "listenerCount ev' (on ev (User n) s)
     = (if ev' = ev then Suc (listenerCount ev' s) else listenerCount ev' s)"
proof -
  have "listenerCount ev' (on ev (User n) s)
          = listenerCount ev' (s\<lparr>listeners := listeners s @ [(ev, User n)]\<rparr>)"
    using assms by (simp add: on_user listenerCount_def)
  then show ?thesis by (simp only: listenerCount_append)
qed

lemma listenerCount_removeListener:
  assumes "handlersInstalled s"
  shows "listenerCount ev' (removeListener ev (User n) s)
     = (if ev' = ev \<and> (ev, User n) \<in> set (listeners s) then listenerCount ev' s - 1
        else listenerCount ev' s)"
proof (cases "(ev, User n) \<in> set (listeners s)")
  case True
  with assms show ?thesis
    by (simp add: removeListener_user listenerCount_removeListenerHandler
          listenerCount_removeLast)
next
  case False
  with assms show ?thesis by (simp add: removeListener_user)
qed

lemma subscriptions_on:
  assumes "handlersInstalled s"
  shows "subscriptions a (on ev (User n) s) = subscriptions a (newListenerHandler ev s)"
  using assms by (simp add: on_user subscriptions_def)

lemma lazySubscription_on:
  assumes "handlersInstalled s" and "lazySubscription s"
  shows "lazySubscription (on ev (User n) s)"
  using assms(2)
  unfolding lazySubscription_def listenerCount_on [OF assms(1)] subscriptions_on [OF assms(1)]
  by (cases ev) (simp_all add: newListenerHandler_def subscriptions_add)

lemma lazySubscription_removeListener:
  assumes "handlersInstalled s" and "lazySubscription s"
  shows "lazySubscription (removeListener ev (User n) s)"
proof (cases "(ev, User n) \<in> set (listeners s)")
  case False
  with assms show ?thesis by (simp add: removeListener_user)
next
  case True
  let ?t = "s\<lparr>listeners := removeLast (ev, User n) (listeners s)\<rparr>"
  have r: "removeListener ev (User n) s = removeListenerHandler ev ?t"
    using assms(1) True by (simp add: removeListener_user)
  have ct: "listenerCount ev' ?t
     = (if ev' = ev then listenerCount ev' s - 1 else listenerCount ev' s)" for ev'
    using True by (rule listenerCount_removeLast)
  have pos: "0 < listenerCount ev s"
    using True by (rule listenerCount_positive)
  show ?thesis
    using assms(2) pos
    unfolding r lazySubscription_def listenerCount_removeListenerHandler
    by (auto simp: removeListenerHandler_def subscriptions_remove ct subscriptions_listeners)
qed

lemma selectFn_frame:
  "listeners (snd (snd (selectFn dev p s))) = listeners s
   \<and> adapterListeners (snd (snd (selectFn dev p s))) = adapterListeners s"
  by (simp add: selectFn_def split: sum.splits bool.splits prod.splits)

lemma onDevices_frame:
  "listeners (snd (snd (onDevices found filters listed p s))) = listeners s
   \<and> adapterListeners (snd (snd (onDevices found filters listed p s))) = adapterListeners s"
  by (simp add: onDevices_def selectFn_frame split: list.splits option.splits sum.splits)

lemma requestDevice_frame:
  "listeners (snd (requestDevice found options listUSBDevices s)) = listeners s
   \<and> adapterListeners (snd (requestDevice found options listUSBDevices s)) = adapterListeners s"
  by (simp add: requestDevice_def Let_def catchError_state onDevices_frame
           split: optionsValue.splits filtersValue.splits option.splits sum.splits)

lemma getDevices_frame:
  "listeners (snd (getDevices listUSBDevices s)) = listeners s
   \<and> adapterListeners (snd (getDevices listUSBDevices s)) = adapterListeners s"
  by (simp add: getDevices_def Let_def split: sum.splits)

lemma deviceConnectCallback_frame:
  "listeners (snd (deviceConnectCallback device s)) = listeners s
   \<and> adapterListeners (snd (deviceConnectCallback device s)) = adapterListeners s"
  by (simp add: deviceConnectCallback_def split: sum.splits bool.splits prod.splits)

lemma deviceDisconnectCallback_frame:
  "listeners (snd (deviceDisconnectCallback h s)) = listeners s
   \<and> adapterListeners (snd (deviceDisconnectCallback h s)) = adapterListeners s"
  by (simp add: deviceDisconnectCallback_def split: sum.splits option.splits)

lemma funpow_frame:
  fixes f :: "USB \<Rightarrow> USB" and s :: USB
  assumes "\<And>t. listeners (f t) = listeners t \<and> adapterListeners (f t) = adapterListeners t"
  shows "listeners ((f ^^ n) s) = listeners s \<and> adapterListeners ((f ^^ n) s) = adapterListeners s"
  by (induction n) (simp_all add: assms)

lemma relayInvariant_frame:
  "listeners t = listeners s \<and> adapterListeners t = adapterListeners s
   \<Longrightarrow> relayInvariant s \<Longrightarrow> relayInvariant t"
  by (simp add: relayInvariant_def handlersInstalled_def lazySubscription_def
        listenerCount_def subscriptions_def)

lemma relayInvariant_step: "relayInvariant s \<Longrightarrow> relayInvariant (step operation s)"
proof (cases operation)
  case (RequestDevice found options listUSBDevices)
  assume "relayInvariant s"
  with RequestDevice show ?thesis
    by (simp add: relayInvariant_frame [OF requestDevice_frame])
next
  case (GetDevices listUSBDevices)
  assume "relayInvariant s"
  with GetDevices show ?thesis
    by (simp add: relayInvariant_frame [OF getDevices_frame])
next
  case (AdapterConnect device)
  assume "relayInvariant s"
  with AdapterConnect show ?thesis
    by (simp add: relayInvariant_frame [OF funpow_frame] deviceConnectCallback_frame)
next
  case (AdapterDisconnect h)
  assume "relayInvariant s"
  with AdapterDisconnect show ?thesis
    by (simp add: relayInvariant_frame [OF funpow_frame] deviceDisconnectCallback_frame)
next
  case (AddListener ev n)
  assume "relayInvariant s"
  with AddListener show ?thesis
    by (simp add: relayInvariant_def handlersInstalled_on lazySubscription_on)
next
  case (RemoveListenerOp ev n)
  assume "relayInvariant s"
  with RemoveListenerOp show ?thesis
    by (simp add: relayInvariant_def handlersInstalled_removeListener
          lazySubscription_removeListener)
qed

lemma relayInvariant_run: "relayInvariant s \<Longrightarrow> relayInvariant (run ops s)"
  unfolding run_def by (induction ops arbitrary: s) (simp_all add: relayInvariant_step)

lemma relayInvariant_constructor: "relayInvariant constructor"
  by (simp add: relayInvariant_def handlersInstalled_def lazySubscription_def
        constructor_state isUser_def listenerCount_def subscriptions_def)

text \<open>
  Claim C7: after every sequence of operations on a new instance, and for \<open>connect\<close> and
  \<open>disconnect\<close> each on its own, the adapter holds exactly one registration of the
  instance's callback when the event has at least one listener and none when it has no
  listener. Adding a listener raises the number of listeners of its event by one, and
  removing a registered one lowers it by one, so the first listener added creates the
  registration, further ones add none, and removing the last listener removes it.
\<close>

theorem adapter_subscription_lazy:
  "subscriptions EVENT_DEVICE_CONNECT (run ops constructor)
     = (if listenerCount Connect (run ops constructor) = 0 then 0 else 1)
   \<and> subscriptions EVENT_DEVICE_DISCONNECT (run ops constructor)
       = (if listenerCount Disconnect (run ops constructor) = 0 then 0 else 1)
   \<and> listenerCount ev' (step (AddListener ev n) (run ops constructor))
       = (if ev' = ev then Suc (listenerCount ev' (run ops constructor))
          else listenerCount ev' (run ops constructor))
   \<and> listenerCount ev' (step (RemoveListenerOp ev n) (run ops constructor))
       = (if ev' = ev \<and> (ev, User n) \<in> set (listeners (run ops constructor))
          then listenerCount ev' (run ops constructor) - 1
          else listenerCount ev' (run ops constructor))"
proof -
  have i: "relayInvariant (run ops constructor)"
    using relayInvariant_constructor by (rule relayInvariant_run)
  then have h: "handlersInstalled (run ops constructor)"
    by (simp add: relayInvariant_def)
  from i have "lazySubscription (run ops constructor)"
    by (simp add: relayInvariant_def)
  then show ?thesis
    unfolding lazySubscription_def
    by (simp add: listenerCount_on [OF h] listenerCount_removeListener [OF h])
qed

theorem adapter_subscription_lazy_witness:
  "adapterListeners (run [AddListener Connect 1] constructor) = [EVENT_DEVICE_CONNECT]
   \<and> adapterListeners (run [AddListener Connect 1, AddListener Connect 2] constructor)
       = [EVENT_DEVICE_CONNECT]
   \<and> adapterListeners
        (run [AddListener Connect 1, AddListener Connect 2, RemoveListenerOp Connect 1]
           constructor) = [EVENT_DEVICE_CONNECT]
   \<and> adapterListeners
        (run [AddListener Connect 1, AddListener Connect 2, RemoveListenerOp Connect 1,
              RemoveListenerOp Connect 2] constructor) = []
   \<and> subscriptions EVENT_DEVICE_CONNECT
        (run [AddListener Connect 1, AddListener Connect 2] constructor) = 1
   \<and> listenerCount Connect (run [AddListener Connect 1, AddListener Connect 2] constructor) = 2"
  using adapter_subscription_lazy
          [of "[AddListener Connect 1, AddListener Connect 2]" Connect Connect 3]
  by (simp add: run_def constructor_state on_def removeListener_def emitListenerEvent_def
        listenersOf_def newListenerHandler_def removeListenerHandler_def listenerCount_def
        subscriptions_def adapterAddListener_def adapterRemoveListener_def removeLast_def)

end
